theory Spec2Isabelle
  imports Main "HOL-Library.List_Lexorder" "HOL-Library.Char_ord" "HOL-Library.Product_Lexorder"
begin

section \<open>Identity of a two-party chat\<close>

text \<open>
  Both versions of the user directory screen (\<^verbatim>\<open>src/all-users.tsx\<close> and
  \<^verbatim>\<open>src/unnamed/part_002\<close>) compute the member list of a chat as
  \<^verbatim>\<open>[currentUser.uid, otherUser.uid].sort()\<close>; \<^verbatim>\<open>all-users.tsx\<close> also joins it
  into \<^verbatim>\<open>chatId = members.join('_')\<close>.  A uid is a \<^typ>\<open>string\<close>.  JavaScript's
  default \<^verbatim>\<open>sort\<close> orders strings lexicographically by code unit; here strings are
  ordered lexicographically by character code (\<open>List_Lexorder\<close>, \<open>Char_ord\<close>), and
  \<^const>\<open>sort\<close> is the stable insertion sort of the list library.
\<close>

definition sorted_members :: "string \<Rightarrow> string \<Rightarrow> string list" where
  "sorted_members a b = sort [a, b]"

fun join :: "string \<Rightarrow> string list \<Rightarrow> string" where
  "join sep [] = []"
| "join sep [x] = x"
| "join sep (x # y # ys) = x @ sep @ join sep (y # ys)"

definition chatId :: "string \<Rightarrow> string \<Rightarrow> string" where
  "chatId a b = join ''_'' (sorted_members a b)"

section \<open>Errors and outcomes of a handler\<close>

text \<open>
  The source declares no error type: what the Firebase SDK or AsyncStorage throws is
  caught by the handler that made the call and written to the console.  The model uses
  the error names of the specification's taxonomy; a remote request that the store
  rejects is \<open>WriteError\<close>, a failed local cache write is \<open>CacheError\<close>.  No definition
  below produces \<open>InvalidParticipants\<close> or \<open>InvalidMessage\<close>, as no line of the source
  raises or returns anything for a bad participant pair or a bad message body.

  The two user actions \<^verbatim>\<open>handleCreateChat\<close> and \<^verbatim>\<open>sendMessage\<close> are \<^verbatim>\<open>async\<close> functions
  whose promise always resolves to \<^verbatim>\<open>undefined\<close>.  Their outcome records which path ran:
  \<^item> \<open>Returned\<close>: the guard at the top returned early; nothing is signalled, logged or
    changed;
  \<^item> \<open>Completed x\<close>: the body ran to its end (for \<^verbatim>\<open>handleCreateChat\<close>, \<open>x\<close> is the chat id
    of the route \<^verbatim>\<open>/chat?chatId=x\<close> pushed on the router);
  \<^item> \<open>Caught e\<close>: an SDK call threw \<open>e\<close>, which the \<^verbatim>\<open>catch\<close> block logged.
\<close>

datatype error = InvalidParticipants | InvalidMessage | SubscriptionError | WriteError | CacheError

datatype 'a outcome = Returned | Completed 'a | Caught error

section \<open>Users and documents\<close>

text \<open>
  \<open>User\<close> is the Firebase Auth user (\<^verbatim>\<open>uid\<close>, \<^verbatim>\<open>displayName: string | null\<close>); \<open>AppUser\<close>
  is the directory entry of \<^verbatim>\<open>all-users.tsx\<close> (its \<^verbatim>\<open>uid\<close> field is \<open>app_uid\<close> here, its
  \<^verbatim>\<open>displayName\<close> is \<open>app_displayName\<close>).  A Firestore document is its id and its fields;
  a field is \<open>None\<close> when the document lacks it or holds \<^verbatim>\<open>null\<close> (JavaScript treats both
  as falsy, and \<^verbatim>\<open>?.\<close> stops at both), and otherwise holds a value of the type the
  application writes.  A server timestamp is a \<^typ>\<open>nat\<close>.
\<close>

type_synonym fs_time = nat

record User =
  uid :: string
  displayName :: "string option"

record AppUser =
  app_uid :: string
  app_displayName :: "string option"
  photoURL :: "string option"

record user_doc =
  ud_id :: string
  ud_displayName :: "string option"
  ud_photoURL :: "string option"

record chat_doc =
  cd_id :: string
  cd_members :: "string list option"
  cd_chatName :: "string option"
  cd_lastMessageText :: "string option"
  cd_lastMessageTimestamp :: "fs_time option"

record message_doc =
  md_id :: string
  md_text :: "string option"
  md_userId :: "string option"
  md_userName :: "string option"
  md_senderId :: "string option"
  md_timestamp :: "fs_time option"

text \<open>
  \<^verbatim>\<open>a || b\<close> for a string field \<open>a\<close>: the empty string is falsy as well.  A template
  literal prints a string as it is, \<^verbatim>\<open>null\<close> as the text \<^verbatim>\<open>null\<close> and \<^verbatim>\<open>undefined\<close> as
  the text \<^verbatim>\<open>undefined\<close>: \<open>template missing a\<close> prints \<open>a\<close>, with \<open>missing\<close> for \<open>None\<close>.
  The \<^verbatim>\<open>displayName\<close> of a Firebase Auth user that has none is \<^verbatim>\<open>null\<close>; the
  \<^verbatim>\<open>displayName\<close> of a directory entry comes from the user's document, where the
  application only ever writes a string, so that \<open>None\<close> is a document without the
  field and reads as \<^verbatim>\<open>undefined\<close>.
\<close>

definition or_default :: "string option \<Rightarrow> string \<Rightarrow> string" where
  "or_default a b = (case a of None \<Rightarrow> b | Some s \<Rightarrow> if s = [] then b else s)"

definition template :: "string \<Rightarrow> string option \<Rightarrow> string" where
  "template missing a = (case a of None \<Rightarrow> missing | Some s \<Rightarrow> s)"

section \<open>The remote store\<close>

text \<open>
  The part of Firestore the handlers talk to: the \<^verbatim>\<open>chats\<close> collection
  (\<^verbatim>\<open>/artifacts/${appId}/public/data/chats\<close>), listed in the order in which a query
  enumerates it, and the message collections, by collection path.  \<open>clock\<close> is the value
  the server gives the next \<^verbatim>\<open>serverTimestamp()\<close>.  \<open>rejecting\<close> says that the store
  rejects requests (rules, network): then \<^verbatim>\<open>getDocs\<close> and \<^verbatim>\<open>addDoc\<close> throw.

  \<^verbatim>\<open>addDoc\<close> chooses an id that no document of the collection has; \<open>autoId\<close> is one such
  choice (a string longer than every id in use).  The new document is put at the end of
  the listing.
\<close>

record firestore =
  chat_docs :: "chat_doc list"
  message_docs :: "string \<Rightarrow> message_doc list"
  clock :: fs_time
  rejecting :: bool

definition messagesPath :: "string \<Rightarrow> string \<Rightarrow> string" where
  "messagesPath appId c = ''/artifacts/'' @ appId @ ''/public/data/chats/'' @ c @ ''/messages''"

definition autoId :: "string list \<Rightarrow> string" where
  "autoId ids = replicate (Suc (foldr max (map length ids) 0)) (CHR ''a'')"

text \<open>\<^verbatim>\<open>getDocs(query(chatsRef, where('members', '==', members), limit(1)))\<close>\<close>

definition getDocs_members_eq :: "string list \<Rightarrow> firestore \<Rightarrow> error + chat_doc list" where
  "getDocs_members_eq ms fs =
     (if rejecting fs then Inl WriteError
      else Inr (take 1 (filter (\<lambda>d. cd_members d = Some ms) (chat_docs fs))))"

text \<open>\<^verbatim>\<open>getDocs(query(chatsRef, where('members', 'array-contains', uid)))\<close>\<close>

definition getDocs_members_contains :: "string \<Rightarrow> firestore \<Rightarrow> error + chat_doc list" where
  "getDocs_members_contains u fs =
     (if rejecting fs then Inl WriteError
      else Inr (filter (\<lambda>d. case cd_members d of None \<Rightarrow> False | Some ms \<Rightarrow> u \<in> set ms)
                  (chat_docs fs)))"

text \<open>
  \<^verbatim>\<open>addDoc(chatsRef, {members, chatName, lastMessageText, lastMessageTimestamp:
  serverTimestamp()})\<close>, returning the new document's id.
\<close>

definition addDoc_chat ::
  "string list \<Rightarrow> string \<Rightarrow> string \<Rightarrow> firestore \<Rightarrow> error + (string \<times> firestore)" where
  "addDoc_chat ms name txt fs =
     (if rejecting fs then Inl WriteError
      else
        (let i = autoId (map cd_id (chat_docs fs)) in
         Inr (i, fs\<lparr>chat_docs := chat_docs fs @
                       [\<lparr>cd_id = i, cd_members = Some ms, cd_chatName = Some name,
                         cd_lastMessageText = Some txt,
                         cd_lastMessageTimestamp = Some (clock fs)\<rparr>],
                     clock := Suc (clock fs)\<rparr>)))"

text \<open>
  \<^verbatim>\<open>addDoc(collection(db, path), {..., timestamp: serverTimestamp()})\<close>: \<open>mk\<close> builds the
  document from the id and the server's timestamp.
\<close>

definition addDoc_message ::
  "string \<Rightarrow> (string \<Rightarrow> fs_time \<Rightarrow> message_doc) \<Rightarrow> firestore \<Rightarrow> error + (string \<times> firestore)" where
  "addDoc_message path mk fs =
     (if rejecting fs then Inl WriteError
      else
        (let i = autoId (map md_id (message_docs fs path)) in
         Inr (i, fs\<lparr>message_docs := (message_docs fs)(path := message_docs fs path @ [mk i (clock fs)]),
                     clock := Suc (clock fs)\<rparr>)))"

section \<open>Creating a chat: \<^verbatim>\<open>handleCreateChat\<close>\<close>

text \<open>
  \<^verbatim>\<open>src/all-users.tsx\<close>, lines 73--102.  The guard \<^verbatim>\<open>if (!currentUser) return\<close> is the only
  check before the member list is built: the two uids are not compared.  The \<^verbatim>\<open>chatId\<close>
  of line 78 is computed and not used: the id of a chat is the one the store gave its
  document.
\<close>

definition handleCreateChat :: "User option \<Rightarrow> AppUser \<Rightarrow> firestore \<Rightarrow> string outcome \<times> firestore" where
  "handleCreateChat currentUser otherUser fs =
     (case currentUser of
        None \<Rightarrow> (Returned, fs)
      | Some u \<Rightarrow>
          (let members = sorted_members (uid u) (app_uid otherUser) in
           case getDocs_members_eq members fs of
             Inl e \<Rightarrow> (Caught e, fs)
           | Inr docs \<Rightarrow>
               (case docs of
                  d # _ \<Rightarrow> (Completed (cd_id d), fs)
                | [] \<Rightarrow>
                    (case addDoc_chat members
                            (template ''null'' (displayName u) @ '' & '' @
                             template ''undefined'' (app_displayName otherUser))
                            ''New chat created!'' fs of
                       Inl e \<Rightarrow> (Caught e, fs)
                     | Inr (i, fs') \<Rightarrow> (Completed i, fs')))))"

text \<open>
  \<^verbatim>\<open>src/unnamed/part_002\<close>, lines 80--139.  The \<^verbatim>\<open>forEach\<close> loop of lines 95--106 keeps
  the id of the last document with exactly two members that include both uids;
  \<^verbatim>\<open>if (existingChatId)\<close> is false for \<^verbatim>\<open>null\<close> and for the empty string.
\<close>

definition both_members :: "string \<Rightarrow> string \<Rightarrow> chat_doc \<Rightarrow> bool" where
  "both_members a b d =
     (let members = (case cd_members d of Some ms \<Rightarrow> ms | None \<Rightarrow> []) in
      length members = 2 \<and> a \<in> set members \<and> b \<in> set members)"

fun find_existing :: "string \<Rightarrow> string \<Rightarrow> chat_doc list \<Rightarrow> string option \<Rightarrow> string option" where
  "find_existing a b [] existingChatId = existingChatId"
| "find_existing a b (d # ds) existingChatId =
     (if both_members a b d then find_existing a b ds (Some (cd_id d))
      else find_existing a b ds existingChatId)"

definition create_part_002 :: "string \<Rightarrow> User \<Rightarrow> AppUser \<Rightarrow> firestore \<Rightarrow> string outcome \<times> firestore" where
  "create_part_002 appId u otherUser fs =
     (case addDoc_chat (sorted_members (uid u) (app_uid otherUser))
             (or_default (displayName u) ''You'' @ '' & '' @ or_default (app_displayName otherUser) ''User'')
             [] fs of
        Inl e \<Rightarrow> (Caught e, fs)
      | Inr (i, fs1) \<Rightarrow>
          (case addDoc_message (messagesPath appId i)
                  (\<lambda>j t. \<lparr>md_id = j, md_text = Some ''Chat started'', md_userId = None,
                           md_userName = None, md_senderId = Some (uid u), md_timestamp = Some t\<rparr>)
                  fs1 of
             Inl e \<Rightarrow> (Caught e, fs1)
           | Inr (j, fs2) \<Rightarrow> (Completed i, fs2)))"

definition handleCreateChat_part_002 ::
  "string \<Rightarrow> User option \<Rightarrow> AppUser \<Rightarrow> firestore \<Rightarrow> string outcome \<times> firestore" where
  "handleCreateChat_part_002 appId currentUser otherUser fs =
     (case currentUser of
        None \<Rightarrow> (Returned, fs)
      | Some u \<Rightarrow>
          (case getDocs_members_contains (uid u) fs of
             Inl e \<Rightarrow> (Caught e, fs)
           | Inr docs \<Rightarrow>
               (case find_existing (uid u) (app_uid otherUser) docs None of
                  None \<Rightarrow> create_part_002 appId u otherUser fs
                | Some existingChatId \<Rightarrow>
                    if existingChatId \<noteq> [] then (Completed existingChatId, fs)
                    else create_part_002 appId u otherUser fs)))"

text \<open>
  The documents each version takes for the chat of a pair: \<^verbatim>\<open>all-users.tsx\<close> asks the
  store for \<^verbatim>\<open>members == [a, b].sort()\<close> (\<open>is_chat_of\<close>), \<^verbatim>\<open>part_002\<close> tests
  \<open>both_members\<close> in its loop.
\<close>

definition is_chat_of :: "string \<Rightarrow> string \<Rightarrow> chat_doc \<Rightarrow> bool" where
  "is_chat_of a b d = (cd_members d = Some (sorted_members a b))"

section \<open>The chat list screen\<close>

text \<open>
  \<^verbatim>\<open>src/chatlist.tsx\<close>, lines 1--243 (component \<^verbatim>\<open>ChatList\<close>).  The state variables
  \<^verbatim>\<open>chats\<close>, \<^verbatim>\<open>loading\<close> and \<^verbatim>\<open>refreshing\<close> are the fields \<open>cl_chats\<close>, \<open>cl_loading\<close> and
  \<open>cl_refreshing\<close>.  AsyncStorage maps a key to a string; the string written here is
  always \<^verbatim>\<open>JSON.stringify(chatList)\<close>, represented by the list it encodes.  \<open>failing\<close>
  says that AsyncStorage throws on a write.
\<close>

record Chat =
  chat_id :: string
  chatName :: string
  lastMessageText :: string
  lastMessageTimestamp :: "fs_time option"

datatype json = JSON_stringify "Chat list"

record asyncStorage =
  items :: "string \<Rightarrow> json option"
  failing :: bool

record ChatList_state =
  cl_chats :: "Chat list"
  cl_loading :: bool
  cl_refreshing :: bool

definition STORAGE_KEY :: string where
  "STORAGE_KEY = ''@cached_chats''"

definition AsyncStorage_setItem :: "string \<Rightarrow> json \<Rightarrow> asyncStorage \<Rightarrow> error + asyncStorage" where
  "AsyncStorage_setItem k v sto =
     (if failing sto then Inl CacheError else Inr (sto\<lparr>items := (items sto)(k \<mapsto> v)\<rparr>))"

text \<open>
  The \<^verbatim>\<open>querySnapshot.forEach\<close> loop of lines 85--100: a document with a falsy
  \<^verbatim>\<open>lastMessageTimestamp\<close> is skipped by the \<^verbatim>\<open>return\<close> of line 91, every other one is
  pushed on \<^verbatim>\<open>chatList\<close>.
\<close>

definition Chat_of :: "chat_doc \<Rightarrow> fs_time \<Rightarrow> Chat" where
  "Chat_of d t =
     \<lparr>chat_id = cd_id d,
      chatName = or_default (cd_chatName d) ''Unnamed Chat'',
      lastMessageText = or_default (cd_lastMessageText d) [],
      lastMessageTimestamp = Some t\<rparr>"

fun chatList_forEach :: "chat_doc list \<Rightarrow> Chat list \<Rightarrow> Chat list" where
  "chatList_forEach [] chatList = chatList"
| "chatList_forEach (d # ds) chatList =
     (case cd_lastMessageTimestamp d of
        None \<Rightarrow> chatList_forEach ds chatList
      | Some t \<Rightarrow> chatList_forEach ds (chatList @ [Chat_of d t]))"

text \<open>
  The snapshot callback (lines 83--112) and the error callback (lines 113--117) of the
  subscription.  A failed cache write is caught and only logged.
\<close>

definition ChatList_onSnapshot ::
  "chat_doc list \<Rightarrow> ChatList_state \<times> asyncStorage \<Rightarrow> ChatList_state \<times> asyncStorage" where
  "ChatList_onSnapshot docs = (\<lambda>(st, sto).
     (let chatList = chatList_forEach docs [] in
      (st\<lparr>cl_chats := chatList, cl_loading := False, cl_refreshing := False\<rparr>,
       case AsyncStorage_setItem STORAGE_KEY (JSON_stringify chatList) sto of
         Inl e \<Rightarrow> sto
       | Inr sto' \<Rightarrow> sto')))"

definition ChatList_onError :: "error \<Rightarrow> ChatList_state \<Rightarrow> ChatList_state" where
  "ChatList_onError e st = st\<lparr>cl_loading := False, cl_refreshing := False\<rparr>"

text \<open>
  The second \<^verbatim>\<open>ChatList\<close> of \<^verbatim>\<open>src/chatlist.tsx\<close> (lines 244--429) has no cache and skips
  no document: its loop (lines 302--310) pushes every document, with
  \<^verbatim>\<open>lastMessageTimestamp: data.lastMessageTimestamp || null\<close>.
\<close>

fun chatList_forEach_second :: "chat_doc list \<Rightarrow> Chat list \<Rightarrow> Chat list" where
  "chatList_forEach_second [] chatList = chatList"
| "chatList_forEach_second (d # ds) chatList =
     chatList_forEach_second ds
       (chatList @ [\<lparr>chat_id = cd_id d,
                      chatName = or_default (cd_chatName d) ''Unnamed Chat'',
                      lastMessageText = or_default (cd_lastMessageText d) [],
                      lastMessageTimestamp = cd_lastMessageTimestamp d\<rparr>])"

definition ChatList_onSnapshot_second :: "chat_doc list \<Rightarrow> ChatList_state \<Rightarrow> ChatList_state" where
  "ChatList_onSnapshot_second docs st = st\<lparr>cl_chats := chatList_forEach_second docs [], cl_loading := False\<rparr>"

section \<open>The chat screen\<close>

text \<open>
  \<^verbatim>\<open>src/chatlist.tsx\<close>, lines 429--781 (component \<^verbatim>\<open>ChatScreen\<close>, the route
  \<^verbatim>\<open>/chat\<close>).  The state variables \<^verbatim>\<open>messages\<close>, \<^verbatim>\<open>input\<close>, \<^verbatim>\<open>currentUser\<close> and \<^verbatim>\<open>loading\<close>
  are the fields \<open>cs_messages\<close>, \<open>cs_input\<close>, \<open>cs_currentUser\<close> and \<open>cs_loading\<close>.  In
  \<open>Message\<close>, \<^verbatim>\<open>id\<close>, \<^verbatim>\<open>text\<close> and \<^verbatim>\<open>timestamp\<close> are \<open>message_id\<close>, \<open>msg_text\<close> and
  \<open>msg_timestamp\<close>; the optional \<^verbatim>\<open>status\<close> is never set.  \<^verbatim>\<open>toLocaleTimeString\<close>
  depends on the device and is a parameter.
\<close>

datatype Sender = Me | Other

record Message =
  message_id :: string
  msg_text :: "string option"
  userName :: "string option"
  sender :: Sender
  time :: string
  avatar :: string
  userId :: "string option"
  msg_timestamp :: "fs_time option"

record ChatScreen_state =
  cs_messages :: "Message list"
  cs_input :: string
  cs_currentUser :: "User option"
  cs_loading :: bool

datatype direction = Asc | Desc

record subscription =
  sub_collection :: string
  sub_orderBy :: "string \<times> direction"

text \<open>
  The subscription of lines 510--550.  The screen is opened by the route
  \<^verbatim>\<open>/chat?chatId=${chatId}\<close> (\<^verbatim>\<open>openChat\<close>, \<^verbatim>\<open>handleCreateChat\<close>); the component never reads
  the route parameter, and the collection path of line 516 is a literal.
\<close>

definition ChatScreen_subscription :: "string \<Rightarrow> string \<Rightarrow> subscription" where
  "ChatScreen_subscription appId routeChatId =
     \<lparr>sub_collection = ''/artifacts/'' @ appId @ ''/public/data/chats/general_chat/messages'',
      sub_orderBy = (''timestamp'', Asc)\<rparr>"

text \<open>
  The \<^verbatim>\<open>forEach\<close> loop of lines 523--536 and the two callbacks.  The effect runs only
  when \<^verbatim>\<open>currentUser\<close> is set, and again whenever it changes, so the callback sees the
  signed-in user.
\<close>

definition Message_of :: "(fs_time \<Rightarrow> string) \<Rightarrow> User \<Rightarrow> message_doc \<Rightarrow> Message" where
  "Message_of toLocaleTimeString currentUser d =
     \<lparr>message_id = md_id d,
      msg_text = md_text d,
      userName = md_userName d,
      sender = (if md_userId d = Some (uid currentUser) then Me else Other),
      time = (case md_timestamp d of Some ts \<Rightarrow> toLocaleTimeString ts | None \<Rightarrow> []),
      avatar = ''https://i.pravatar.cc/150?img=3'',
      userId = md_userId d,
      msg_timestamp = md_timestamp d\<rparr>"

fun msgs_forEach ::
  "(fs_time \<Rightarrow> string) \<Rightarrow> User \<Rightarrow> message_doc list \<Rightarrow> Message list \<Rightarrow> Message list" where
  "msgs_forEach f u [] msgs = msgs"
| "msgs_forEach f u (d # ds) msgs = msgs_forEach f u ds (msgs @ [Message_of f u d])"

definition ChatScreen_onSnapshot ::
  "(fs_time \<Rightarrow> string) \<Rightarrow> User \<Rightarrow> message_doc list \<Rightarrow> ChatScreen_state \<Rightarrow> ChatScreen_state" where
  "ChatScreen_onSnapshot f u docs st = st\<lparr>cs_messages := msgs_forEach f u docs [], cs_loading := False\<rparr>"

definition ChatScreen_onError :: "error \<Rightarrow> ChatScreen_state \<Rightarrow> ChatScreen_state" where
  "ChatScreen_onError e st = st\<lparr>cs_loading := False\<rparr>"

text \<open>
  \<^verbatim>\<open>String.prototype.trim\<close> removes white space and line terminators at both ends.  Of
  these, the characters of \<^typ>\<open>string\<close> (code units below 256) hold seven: tab, line
  feed, vertical tab, form feed, carriage return, space and the no-break space U+00A0.
  The others (U+1680, U+2000 to U+200A, U+2028, U+2029, U+202F, U+205F, U+3000, U+FEFF)
  are not characters of this type.
\<close>

definition is_space :: "char \<Rightarrow> bool" where
  "is_space c = (c \<in> set [CHR 0x09, CHR 0x0A, CHR 0x0B, CHR 0x0C, CHR 0x0D, CHR 0x20, CHR 0xA0])"

definition trim :: "string \<Rightarrow> string" where
  "trim s = rev (dropWhile is_space (rev (dropWhile is_space s)))"

text \<open>
  What the subscription of lines 517--519, \<^verbatim>\<open>query(messagesRef, orderBy('timestamp',
  'asc'))\<close>, lists of the documents the store holds: those that have the field
  \<^verbatim>\<open>timestamp\<close>, in ascending order of it, documents of equal timestamp in the order of
  their ids.
\<close>

definition query_messages :: "firestore \<Rightarrow> string \<Rightarrow> message_doc list" where
  "query_messages fs path =
     sort_key (\<lambda>d. ((case md_timestamp d of Some t \<Rightarrow> t | None \<Rightarrow> 0), md_id d))
       (filter (\<lambda>d. md_timestamp d \<noteq> None) (message_docs fs path))"

text \<open>
  A write to a collection that has a snapshot listener attached is shown to the
  listener at once, before the server has answered: the Firestore client raises a
  snapshot of its local view, in which the new document stands after the documents of
  the server and its \<^verbatim>\<open>serverTimestamp()\<close> field reads \<^verbatim>\<open>null\<close>.  \<open>pending_snapshot\<close> is
  that snapshot for the \<^verbatim>\<open>addDoc\<close> that \<open>addDoc_message path mk\<close> performs.
\<close>

definition pending_snapshot ::
  "string \<Rightarrow> (string \<Rightarrow> fs_time \<Rightarrow> message_doc) \<Rightarrow> firestore \<Rightarrow> message_doc list" where
  "pending_snapshot path mk fs =
     query_messages fs path @
       [(mk (autoId (map md_id (message_docs fs path))) (clock fs))\<lparr>md_timestamp := None\<rparr>]"

text \<open>
  \<^verbatim>\<open>sendMessage\<close>, lines 552--569; \<open>outgoing\<close> is the document of lines 557--560, given
  the id and the timestamp it gets from the store.  The function itself does not touch
  \<^verbatim>\<open>messages\<close>; on success it clears the input.  It writes to the collection the screen subscribes to.
  \<open>listening\<close> says that the listener of lines 519--547 is attached (it is from the
  run of the effect until the screen is left or the subscription fails): then, while
  \<^verbatim>\<open>await addDoc\<close> is pending, the snapshot callback runs on the pending snapshot.  When
  the store rejects the write, the client takes the document out of its local view and
  raises a snapshot without it before \<^verbatim>\<open>addDoc\<close> throws.  The snapshot that carries the
  server's timestamp is an event of its own, after the write.
\<close>

definition outgoing :: "string \<Rightarrow> User \<Rightarrow> string \<Rightarrow> fs_time \<Rightarrow> message_doc" where
  "outgoing input u i t =
     \<lparr>md_id = i, md_text = Some (trim input), md_userId = Some (uid u),
      md_userName = Some (or_default (displayName u) ''Guest''),
      md_senderId = None, md_timestamp = Some t\<rparr>"

definition sendMessage ::
  "(fs_time \<Rightarrow> string) \<Rightarrow> string \<Rightarrow> bool \<Rightarrow> ChatScreen_state \<Rightarrow> firestore \<Rightarrow>
     unit outcome \<times> ChatScreen_state \<times> firestore" where
  "sendMessage toLocaleTimeString appId listening st fs =
     (if trim (cs_input st) = [] then (Returned, st, fs)
      else
        (case cs_currentUser st of
           None \<Rightarrow> (Returned, st, fs)
         | Some u \<Rightarrow>
             (let path = ''/artifacts/'' @ appId @ ''/public/data/chats/general_chat/messages'';
                  mk = outgoing (cs_input st) u;
                  st1 = (if listening
                         then ChatScreen_onSnapshot toLocaleTimeString u (pending_snapshot path mk fs) st
                         else st)
              in case addDoc_message path mk fs of
                   Inl e \<Rightarrow>
                     (Caught e,
                      if listening
                      then ChatScreen_onSnapshot toLocaleTimeString u (query_messages fs path) st1
                      else st1,
                      fs)
                 | Inr (i, fs') \<Rightarrow> (Completed (), st1\<lparr>cs_input := []\<rparr>, fs'))))"

section \<open>The user directory screen\<close>

text \<open>
  Component \<^verbatim>\<open>AllUsers\<close> of \<^verbatim>\<open>src/all-users.tsx\<close> and of \<^verbatim>\<open>src/unnamed/part_002\<close>.  The
  state variables \<^verbatim>\<open>currentUser\<close>, \<^verbatim>\<open>users\<close> and \<^verbatim>\<open>loading\<close> are \<open>au_currentUser\<close>,
  \<open>au_users\<close> and \<open>au_loading\<close>.

  A function component is called once per render, and \<^verbatim>\<open>const [currentUser,
  setCurrentUser] = useState(null)\<close> binds \<^verbatim>\<open>currentUser\<close> to the state's value at that
  render; \<^verbatim>\<open>setCurrentUser\<close> changes what the next render binds, never a binding that a
  closure already holds.  The effect that subscribes to the auth state has the
  dependency list \<^verbatim>\<open>[]\<close>: it runs once, after the first render, so the auth callback
  and the \<^verbatim>\<open>fetchUsers\<close> it calls are the closures of the first render, where
  \<^verbatim>\<open>currentUser\<close> is \<^verbatim>\<open>null\<close>.  \<open>au_listener\<close> is the snapshot listener that \<^verbatim>\<open>fetchUsers\<close>
  registered, given by the value its closure holds for the comparison of the loop
  (\<open>None\<close>: no listener yet).
\<close>

record AllUsers_state =
  au_currentUser :: "User option"
  au_users :: "AppUser list"
  au_loading :: bool
  au_listener :: "string option option"

definition AllUsers_initial :: AllUsers_state where
  "AllUsers_initial = \<lparr>au_currentUser = None, au_users = [], au_loading = True, au_listener = None\<rparr>"

text \<open>
  The \<^verbatim>\<open>forEach\<close> loop of the snapshot callback.  \<open>self\<close> is the right-hand side of
  \<^verbatim>\<open>doc.id !== ...\<close>: a uid, or \<open>None\<close> for \<^verbatim>\<open>undefined\<close>, which no document id equals.
\<close>

definition AppUser_of :: "user_doc \<Rightarrow> AppUser" where
  "AppUser_of d = \<lparr>app_uid = ud_id d, app_displayName = ud_displayName d, photoURL = ud_photoURL d\<rparr>"

fun usersList_forEach :: "string option \<Rightarrow> user_doc list \<Rightarrow> AppUser list \<Rightarrow> AppUser list" where
  "usersList_forEach self [] usersList = usersList"
| "usersList_forEach self (d # ds) usersList =
     (if Some (ud_id d) \<noteq> self then usersList_forEach self ds (usersList @ [AppUser_of d])
      else usersList_forEach self ds usersList)"

definition users_onSnapshot :: "user_doc list \<Rightarrow> AllUsers_state \<Rightarrow> AllUsers_state" where
  "users_onSnapshot docs st =
     (case au_listener st of
        None \<Rightarrow> st
      | Some self \<Rightarrow> st\<lparr>au_users := usersList_forEach self docs [], au_loading := False\<rparr>)"

definition users_onError :: "error \<Rightarrow> AllUsers_state \<Rightarrow> AllUsers_state" where
  "users_onError e st = st\<lparr>au_loading := False\<rparr>"

text \<open>
  \<^verbatim>\<open>src/all-users.tsx\<close>, lines 30--71: \<^verbatim>\<open>fetchUsers()\<close> takes no argument and compares
  with \<^verbatim>\<open>currentUser?.uid\<close>, where \<^verbatim>\<open>currentUser\<close> is the binding of the render that
  created the closure.  The auth callback is the first render's, so that binding is
  the initial state's.
\<close>

definition fetchUsers :: "User option \<Rightarrow> AllUsers_state \<Rightarrow> AllUsers_state" where
  "fetchUsers currentUser st = st\<lparr>au_loading := True, au_listener := Some (map_option uid currentUser)\<rparr>"

definition onAuthStateChanged :: "User option \<Rightarrow> AllUsers_state \<Rightarrow> AllUsers_state" where
  "onAuthStateChanged user st =
     (case user of
        Some u \<Rightarrow> fetchUsers (au_currentUser AllUsers_initial) (st\<lparr>au_currentUser := Some u\<rparr>)
      | None \<Rightarrow> st)"

text \<open>
  \<^verbatim>\<open>src/unnamed/part_002\<close>, lines 38--78: \<^verbatim>\<open>fetchUsers(user)\<close> is passed the user of the
  auth callback and compares with \<^verbatim>\<open>user.uid\<close>.
\<close>

definition fetchUsers_part_002 :: "User \<Rightarrow> AllUsers_state \<Rightarrow> AllUsers_state" where
  "fetchUsers_part_002 user st = st\<lparr>au_loading := True, au_listener := Some (Some (uid user))\<rparr>"

definition onAuthStateChanged_part_002 :: "User option \<Rightarrow> AllUsers_state \<Rightarrow> AllUsers_state" where
  "onAuthStateChanged_part_002 user st =
     (case user of
        Some u \<Rightarrow> fetchUsers_part_002 u (st\<lparr>au_currentUser := Some u\<rparr>)
      | None \<Rightarrow> st)"

section \<open>Example states\<close>

text \<open>
  Concrete users, documents and states on which the results below are evaluated: the
  signed-in user \<open>alice\<close> (uid \<^verbatim>\<open>u1\<close>), her own directory entry, the directory entry of
  \<open>bob\<close> (uid \<^verbatim>\<open>u2\<close>), an empty store, a store that holds two chat documents for the
  pair, a snapshot of the chat list with one document that has no timestamp, and a
  snapshot of the users collection.
\<close>

definition alice :: User where
  "alice = \<lparr>uid = ''u1'', displayName = Some ''Alice''\<rparr>"

definition alice_entry :: AppUser where
  "alice_entry = \<lparr>app_uid = ''u1'', app_displayName = Some ''Alice'', photoURL = None\<rparr>"

definition bob :: AppUser where
  "bob = \<lparr>app_uid = ''u2'', app_displayName = Some ''Bob'', photoURL = None\<rparr>"

definition bob_user :: User where
  "bob_user = \<lparr>uid = ''u2'', displayName = Some ''Bob''\<rparr>"

definition fs_empty :: firestore where
  "fs_empty = \<lparr>chat_docs = [], message_docs = (\<lambda>path. []), clock = 0, rejecting = False\<rparr>"

definition chat_u1_u2 :: "string \<Rightarrow> chat_doc" where
  "chat_u1_u2 i =
     \<lparr>cd_id = i, cd_members = Some [''u1'', ''u2''], cd_chatName = Some ''Alice & Bob'',
      cd_lastMessageText = Some ''New chat created!'', cd_lastMessageTimestamp = Some 0\<rparr>"

definition fs_duplicates :: firestore where
  "fs_duplicates =
     \<lparr>chat_docs = [chat_u1_u2 ''c1'', chat_u1_u2 ''c2''], message_docs = (\<lambda>path. []),
      clock = 1, rejecting = False\<rparr>"

definition chat_pending :: chat_doc where
  "chat_pending =
     \<lparr>cd_id = ''c2'', cd_members = Some [''u1'', ''u3''], cd_chatName = Some ''Alice & Carol'',
      cd_lastMessageText = Some [], cd_lastMessageTimestamp = None\<rparr>"

definition docs_one_pending :: "chat_doc list" where
  "docs_one_pending = [chat_u1_u2 ''c1'', chat_pending]"

definition cl_initial :: ChatList_state where
  "cl_initial = \<lparr>cl_chats = [], cl_loading = True, cl_refreshing = False\<rparr>"

definition storage_empty :: asyncStorage where
  "storage_empty = \<lparr>items = (\<lambda>k. None), failing = False\<rparr>"

definition cs_typed :: "string \<Rightarrow> ChatScreen_state" where
  "cs_typed s = \<lparr>cs_messages = [], cs_input = s, cs_currentUser = Some alice, cs_loading = False\<rparr>"

definition users_snapshot :: "user_doc list" where
  "users_snapshot =
     [\<lparr>ud_id = ''u1'', ud_displayName = Some ''Alice'', ud_photoURL = None\<rparr>,
      \<lparr>ud_id = ''u2'', ud_displayName = Some ''Bob'', ud_photoURL = None\<rparr>]"

section \<open>Properties of the chat identity\<close>

lemma sorted_members_cases:
  "sorted_members a b = (if a \<le> b then [a, b] else [b, a])"
  by (simp add: sorted_members_def)

lemma sorted_members_commute: "sorted_members a b = sorted_members b a"
  by (cases "a \<le> b"; cases "b \<le> a") (auto simp: sorted_members_cases)

text \<open>
  Claim C4.  The sorted member pair and the joined key do not depend on which of the
  two participants starts the chat: computed with \<open>a\<close> as the current user and \<open>b\<close> as the
  other user they are the same as with the roles exchanged.  This holds for all ids, in
  particular for all distinct ones.
\<close>

theorem canonicalKey_symmetric:
  "sorted_members a b = sorted_members b a \<and> chatId a b = chatId b a"
  using sorted_members_commute [of a b] by (simp add: chatId_def)

section \<open>Properties of \<^verbatim>\<open>handleCreateChat\<close>\<close>

lemma is_chat_of_fun: "is_chat_of a b = (\<lambda>d. cd_members d = Some (sorted_members a b))"
  by (rule ext) (simp add: is_chat_of_def)

lemma autoId_nonempty: "autoId ids \<noteq> []"
  by (simp add: autoId_def)

lemma both_members_sorted:
  "both_members a b \<lparr>cd_id = i, cd_members = Some (sorted_members a b), cd_chatName = n,
     cd_lastMessageText = t, cd_lastMessageTimestamp = ts\<rparr>"
  by (simp add: both_members_def sorted_members_cases)

subsection \<open>\<^verbatim>\<open>all-users.tsx\<close>: look up, else create\<close>

lemma handleCreateChat_found:
  assumes "\<not> rejecting fs"
    and "filter (is_chat_of (uid u) (app_uid otherUser)) (chat_docs fs) = d # ds"
  shows "handleCreateChat (Some u) otherUser fs = (Completed (cd_id d), fs)"
  using assms by (simp add: handleCreateChat_def getDocs_members_eq_def is_chat_of_fun)

lemma handleCreateChat_created:
  assumes "\<not> rejecting fs"
    and "filter (is_chat_of (uid u) (app_uid otherUser)) (chat_docs fs) = []"
  shows "\<exists>i fs' d. handleCreateChat (Some u) otherUser fs = (Completed i, fs') \<and> \<not> rejecting fs' \<and>
           cd_id d = i \<and> cd_members d = Some (sorted_members (uid u) (app_uid otherUser)) \<and>
           filter (is_chat_of (uid u) (app_uid otherUser)) (chat_docs fs') = [d]"
  using assms
  by (simp add: handleCreateChat_def getDocs_members_eq_def addDoc_chat_def Let_def is_chat_of_fun)

text \<open>
  After a call on a store that accepts requests, the chat it answered with is the first
  document of the pair, and the pair has as many documents as before, or one if it had
  none.
\<close>

lemma handleCreateChat_first:
  assumes "\<not> rejecting fs"
  shows "\<exists>fs1 d ds. handleCreateChat (Some u) otherUser fs = (Completed (cd_id d), fs1) \<and> \<not> rejecting fs1
           \<and> filter (is_chat_of (uid u) (app_uid otherUser)) (chat_docs fs1) = d # ds
           \<and> Suc (length ds) = max 1 (length (filter (is_chat_of (uid u) (app_uid otherUser)) (chat_docs fs)))"
proof (cases "filter (is_chat_of (uid u) (app_uid otherUser)) (chat_docs fs)")
  case Nil
  from handleCreateChat_created [OF assms Nil] obtain i fs' d where
    "handleCreateChat (Some u) otherUser fs = (Completed i, fs')" and "\<not> rejecting fs'"
    and "cd_id d = i" and "filter (is_chat_of (uid u) (app_uid otherUser)) (chat_docs fs') = [d]"
    by blast
  with Nil show ?thesis
    by auto
next
  case (Cons d ds)
  from handleCreateChat_found [OF assms Cons] assms Cons show ?thesis
    by auto
qed

lemma handleCreateChat_twice:
  assumes "\<not> rejecting fs"
  shows "\<exists>cid fs1. handleCreateChat (Some u) otherUser fs = (Completed cid, fs1)
           \<and> handleCreateChat (Some u) otherUser fs1 = (Completed cid, fs1)
           \<and> length (filter (is_chat_of (uid u) (app_uid otherUser)) (chat_docs fs1)) =
               max 1 (length (filter (is_chat_of (uid u) (app_uid otherUser)) (chat_docs fs)))"
proof -
  from handleCreateChat_first [OF assms] obtain fs1 d ds where
    c: "handleCreateChat (Some u) otherUser fs = (Completed (cd_id d), fs1)" and r: "\<not> rejecting fs1"
    and f: "filter (is_chat_of (uid u) (app_uid otherUser)) (chat_docs fs1) = d # ds"
    and n: "Suc (length ds) = max 1 (length (filter (is_chat_of (uid u) (app_uid otherUser)) (chat_docs fs)))"
    by blast
  from handleCreateChat_found [OF r f] c f n show ?thesis
    by simp
qed

subsection \<open>\<^verbatim>\<open>part_002\<close>: scan the user's chats, else create\<close>

lemma find_existing_eq:
  "find_existing a b docs acc =
     (case filter (both_members a b) docs of [] \<Rightarrow> acc | m # ms \<Rightarrow> Some (cd_id (last (m # ms))))"
  by (induction docs arbitrary: acc) (auto split: list.splits)

lemma filter_both_contains:
  "filter (both_members a b)
     (filter (\<lambda>d. case cd_members d of None \<Rightarrow> False | Some ms \<Rightarrow> a \<in> set ms) docs) =
   filter (both_members a b) docs"
  by (induction docs) (auto simp: both_members_def split: option.splits)

lemma part_002_lookup:
  assumes "\<not> rejecting fs"
  shows "handleCreateChat_part_002 appId (Some u) otherUser fs =
     (case filter (both_members (uid u) (app_uid otherUser)) (chat_docs fs) of
        [] \<Rightarrow> create_part_002 appId u otherUser fs
      | m # ms \<Rightarrow> if cd_id (last (m # ms)) \<noteq> [] then (Completed (cd_id (last (m # ms))), fs)
                  else create_part_002 appId u otherUser fs)"
proof -
  have "find_existing (uid u) (app_uid otherUser)
          (filter (\<lambda>d. case cd_members d of None \<Rightarrow> False | Some ms \<Rightarrow> uid u \<in> set ms) (chat_docs fs)) None =
        (case filter (both_members (uid u) (app_uid otherUser)) (chat_docs fs) of
           [] \<Rightarrow> None | m # ms \<Rightarrow> Some (cd_id (last (m # ms))))"
    by (simp only: find_existing_eq filter_both_contains)
  with assms show ?thesis
    by (simp add: handleCreateChat_part_002_def getDocs_members_contains_def split: list.splits)
qed

lemma create_part_002_result:
  assumes "\<not> rejecting fs"
  shows "\<exists>i fs' d. create_part_002 appId u otherUser fs = (Completed i, fs') \<and> \<not> rejecting fs' \<and> i \<noteq> [] \<and>
           cd_id d = i \<and> both_members (uid u) (app_uid otherUser) d \<and>
           cd_members d = Some (sorted_members (uid u) (app_uid otherUser)) \<and>
           chat_docs fs' = chat_docs fs @ [d]"
  using assms
  by (simp add: create_part_002_def addDoc_chat_def addDoc_message_def Let_def autoId_nonempty
      both_members_sorted)

lemma create_part_002_completes:
  "\<not> rejecting fs \<Longrightarrow> \<exists>cid fs'. create_part_002 appId u otherUser fs = (Completed cid, fs')"
  using create_part_002_result by blast

lemma part_002_twice:
  assumes "\<not> rejecting fs" and ids: "\<forall>d\<in>set (chat_docs fs). cd_id d \<noteq> []"
  shows "\<exists>cid fs1. handleCreateChat_part_002 appId (Some u) otherUser fs = (Completed cid, fs1)
           \<and> handleCreateChat_part_002 appId (Some u) otherUser fs1 = (Completed cid, fs1)
           \<and> length (filter (both_members (uid u) (app_uid otherUser)) (chat_docs fs1)) =
               max 1 (length (filter (both_members (uid u) (app_uid otherUser)) (chat_docs fs)))"
proof (cases "filter (both_members (uid u) (app_uid otherUser)) (chat_docs fs)")
  case Nil
  from create_part_002_result [OF assms(1)] obtain i fs' d where
    c: "create_part_002 appId u otherUser fs = (Completed i, fs')" and r: "\<not> rejecting fs'"
    and i: "i \<noteq> []" and d: "cd_id d = i" "both_members (uid u) (app_uid otherUser) d"
    and docs: "chat_docs fs' = chat_docs fs @ [d]"
    by blast
  have f: "filter (both_members (uid u) (app_uid otherUser)) (chat_docs fs') = [d]"
    using Nil docs d by simp
  have "handleCreateChat_part_002 appId (Some u) otherUser fs = (Completed i, fs')"
    using Nil c by (simp add: part_002_lookup [OF assms(1)])
  moreover have "handleCreateChat_part_002 appId (Some u) otherUser fs' = (Completed i, fs')"
    using f d i by (simp add: part_002_lookup [OF r])
  ultimately show ?thesis
    using f Nil by simp
next
  case (Cons m ms)
  have "last (m # ms) \<in> set (filter (both_members (uid u) (app_uid otherUser)) (chat_docs fs))"
    unfolding Cons by (rule last_in_set) simp
  then have "cd_id (last (m # ms)) \<noteq> []"
    using ids by simp
  then have "handleCreateChat_part_002 appId (Some u) otherUser fs = (Completed (cd_id (last (m # ms))), fs)"
    using Cons by (simp add: part_002_lookup [OF assms(1)])
  then show ?thesis
    using Cons by simp
qed

subsection \<open>Calling twice\<close>

text \<open>
  Claim C1, as amended.  On a store that accepts requests, two calls in a row by the
  same user for the same other participant complete with the same chat id, and the
  second call leaves the store as the first one left it.  The first call adds a
  document only when the pair has none: afterwards the pair has \<open>max 1 n\<close> documents,
  where \<open>n\<close> is their number before, so exactly one whenever the store held at most one.
  For \<^verbatim>\<open>all-users.tsx\<close> the documents of the pair are those whose \<^verbatim>\<open>members\<close> equal the
  sorted pair; for \<^verbatim>\<open>part_002\<close> they are those its loop accepts, and document ids are
  taken to be non-empty, as Firestore's are.
\<close>

theorem getOrCreate_twice:
  assumes "\<not> rejecting fs"
  shows "(\<exists>cid fs1. handleCreateChat (Some u) otherUser fs = (Completed cid, fs1)
           \<and> handleCreateChat (Some u) otherUser fs1 = (Completed cid, fs1)
           \<and> length (filter (is_chat_of (uid u) (app_uid otherUser)) (chat_docs fs1)) =
               max 1 (length (filter (is_chat_of (uid u) (app_uid otherUser)) (chat_docs fs))))
       \<and> ((\<forall>d\<in>set (chat_docs fs). cd_id d \<noteq> []) \<longrightarrow>
           (\<exists>cid fs1. handleCreateChat_part_002 appId (Some u) otherUser fs = (Completed cid, fs1)
             \<and> handleCreateChat_part_002 appId (Some u) otherUser fs1 = (Completed cid, fs1)
             \<and> length (filter (both_members (uid u) (app_uid otherUser)) (chat_docs fs1)) =
                 max 1 (length (filter (both_members (uid u) (app_uid otherUser)) (chat_docs fs)))))"
  using handleCreateChat_twice [OF assms] part_002_twice [OF assms] by blast

text \<open>On the empty store both versions create one chat of \<^verbatim>\<open>u1\<close> and \<^verbatim>\<open>u2\<close> and then find it.\<close>

theorem getOrCreate_twice_witness:
  "\<not> rejecting fs_empty
   \<and> (\<exists>cid fs1. handleCreateChat (Some alice) bob fs_empty = (Completed cid, fs1)
         \<and> handleCreateChat (Some alice) bob fs1 = (Completed cid, fs1)
         \<and> length (filter (is_chat_of ''u1'' ''u2'') (chat_docs fs1)) = 1)
   \<and> (\<exists>cid fs1. handleCreateChat_part_002 ''app'' (Some alice) bob fs_empty = (Completed cid, fs1)
         \<and> handleCreateChat_part_002 ''app'' (Some alice) bob fs1 = (Completed cid, fs1)
         \<and> length (filter (both_members ''u1'' ''u2'') (chat_docs fs1)) = 1)"
  using getOrCreate_twice [of fs_empty alice bob "''app''"]
  by (simp add: fs_empty_def alice_def bob_def)

text \<open>
  Claim C1 as stated fails on a store that already holds two documents for the pair
  (what two concurrent first calls leave behind): both calls answer \<^verbatim>\<open>c1\<close>, and the
  store still holds two documents for the pair, not one.
\<close>

theorem getOrCreate_duplicates_counterexample:
  "fst (handleCreateChat (Some alice) bob fs_duplicates) = Completed ''c1''
   \<and> fst (handleCreateChat (Some alice) bob (snd (handleCreateChat (Some alice) bob fs_duplicates))) =
       Completed ''c1''
   \<and> length (filter (is_chat_of ''u1'' ''u2'')
        (chat_docs (snd (handleCreateChat (Some alice) bob
           (snd (handleCreateChat (Some alice) bob fs_duplicates)))))) = 2"
  by (simp add: handleCreateChat_def getDocs_members_eq_def fs_duplicates_def chat_u1_u2_def alice_def
      bob_def sorted_members_def is_chat_of_def Let_def)

subsection \<open>Targeting oneself\<close>

text \<open>
  Claim C5, as amended.  \<^verbatim>\<open>handleCreateChat\<close> does not compare the two participants and
  signals no error for equal ones.  Called by \<open>u\<close> for a directory entry with \<open>u\<close>'s own
  uid, on a store that accepts requests, it completes as for any other entry: the
  version of \<^verbatim>\<open>all-users.tsx\<close> answers with the id of a chat document of the store
  whose \<^verbatim>\<open>members\<close> are \<open>[uid u, uid u]\<close>, and the version of \<^verbatim>\<open>part_002\<close> completes with a
  chat id as well.
\<close>

theorem handleCreateChat_self_no_error:
  assumes "\<not> rejecting fs" and "app_uid otherUser = uid u"
  shows "(\<exists>cid fs'. handleCreateChat (Some u) otherUser fs = (Completed cid, fs')
            \<and> (\<exists>d\<in>set (chat_docs fs'). cd_id d = cid \<and> cd_members d = Some [uid u, uid u]))
       \<and> (\<exists>cid fs'. handleCreateChat_part_002 appId (Some u) otherUser fs = (Completed cid, fs'))"
proof -
  have sm: "sorted_members (uid u) (uid u) = [uid u, uid u]"
    by (simp add: sorted_members_def)
  from handleCreateChat_first [OF assms(1)] obtain fs1 d ds where
    c: "handleCreateChat (Some u) otherUser fs = (Completed (cd_id d), fs1)"
    and f: "filter (is_chat_of (uid u) (app_uid otherUser)) (chat_docs fs1) = d # ds"
    by blast
  have "d \<in> set (filter (is_chat_of (uid u) (app_uid otherUser)) (chat_docs fs1))"
    unfolding f by simp
  then have "d \<in> set (chat_docs fs1)" and "cd_members d = Some [uid u, uid u]"
    using assms(2) sm by (simp_all add: is_chat_of_def)
  with c have "\<exists>cid fs'. handleCreateChat (Some u) otherUser fs = (Completed cid, fs')
          \<and> (\<exists>d\<in>set (chat_docs fs'). cd_id d = cid \<and> cd_members d = Some [uid u, uid u])"
    by auto
  moreover have "\<exists>cid fs'. handleCreateChat_part_002 appId (Some u) otherUser fs = (Completed cid, fs')"
    using create_part_002_completes [OF assms(1), of appId u otherUser]
    by (auto simp: part_002_lookup [OF assms(1)] split: list.splits)
  ultimately show ?thesis
    by blast
qed

theorem handleCreateChat_self_no_error_witness:
  "\<not> rejecting fs_empty \<and> app_uid alice_entry = uid alice
   \<and> (\<exists>cid fs'. handleCreateChat (Some alice) alice_entry fs_empty = (Completed cid, fs')
         \<and> (\<exists>d\<in>set (chat_docs fs'). cd_id d = cid \<and> cd_members d = Some [''u1'', ''u1'']))
   \<and> (\<exists>cid fs'. handleCreateChat_part_002 ''app'' (Some alice) alice_entry fs_empty = (Completed cid, fs'))"
  using handleCreateChat_self_no_error [of fs_empty alice_entry alice "''app''"]
  by (simp add: fs_empty_def alice_def alice_entry_def)

text \<open>
  Claim C5 as stated fails: on the empty store, \<^verbatim>\<open>u1\<close> targeting \<^verbatim>\<open>u1\<close> completes with
  the new chat \<^verbatim>\<open>a\<close>, no \<open>InvalidParticipants\<close>, and the store then holds a chat whose
  members are \<^verbatim>\<open>u1\<close> and \<^verbatim>\<open>u1\<close>.
\<close>

theorem handleCreateChat_self_counterexample:
  "fst (handleCreateChat (Some alice) alice_entry fs_empty) = Completed ''a''
   \<and> fst (handleCreateChat (Some alice) alice_entry fs_empty) \<noteq> Caught InvalidParticipants
   \<and> map cd_members (chat_docs (snd (handleCreateChat (Some alice) alice_entry fs_empty))) =
       [Some [''u1'', ''u1'']]"
  by (simp add: handleCreateChat_def getDocs_members_eq_def addDoc_chat_def fs_empty_def alice_def
      alice_entry_def sorted_members_def autoId_def Let_def)

subsection \<open>Either participant may start\<close>

text \<open>
  After \<open>a\<close> has opened the chat with \<open>b\<close>, the call of \<open>b\<close> for \<open>a\<close> in
  \<^verbatim>\<open>all-users.tsx\<close> answers with the same chat and leaves the store alone.
\<close>

theorem getOrCreate_either_side:
  assumes "\<not> rejecting fs" and "app_uid a_entry = uid a" and "app_uid b_entry = uid b"
  shows "\<exists>cid fs1. handleCreateChat (Some a) b_entry fs = (Completed cid, fs1)
           \<and> handleCreateChat (Some b) a_entry fs1 = (Completed cid, fs1)"
proof -
  from handleCreateChat_first [OF assms(1)] obtain fs1 d ds where
    c: "handleCreateChat (Some a) b_entry fs = (Completed (cd_id d), fs1)" and r: "\<not> rejecting fs1"
    and f: "filter (is_chat_of (uid a) (app_uid b_entry)) (chat_docs fs1) = d # ds"
    by blast
  have "is_chat_of (uid b) (app_uid a_entry) = is_chat_of (uid a) (app_uid b_entry)"
    using assms(2,3) sorted_members_commute [of "uid a" "uid b"] by (simp add: is_chat_of_fun)
  with f have "filter (is_chat_of (uid b) (app_uid a_entry)) (chat_docs fs1) = d # ds"
    by simp
  from handleCreateChat_found [OF r this] c show ?thesis
    by simp
qed

theorem getOrCreate_either_side_witness:
  "\<not> rejecting fs_empty \<and> app_uid alice_entry = uid alice \<and> app_uid bob = uid bob_user
   \<and> (\<exists>cid fs1. handleCreateChat (Some alice) bob fs_empty = (Completed cid, fs1)
         \<and> handleCreateChat (Some bob_user) alice_entry fs1 = (Completed cid, fs1))"
  using getOrCreate_either_side [of fs_empty alice_entry alice bob bob_user]
  by (simp add: fs_empty_def alice_def alice_entry_def bob_def bob_user_def)

section \<open>Properties of the user directory\<close>

lemma usersList_forEach_eq:
  "usersList_forEach self docs acc =
     acc @ map AppUser_of (filter (\<lambda>d. Some (ud_id d) \<noteq> self) docs)"
  by (induction docs arbitrary: acc) auto

text \<open>
  Claim C10 fails for \<^verbatim>\<open>src/all-users.tsx\<close>.  The listener that \<^verbatim>\<open>fetchUsers()\<close>
  registers compares each document id with \<^verbatim>\<open>currentUser?.uid\<close> of the first render,
  which is \<^verbatim>\<open>undefined\<close>: after \<^verbatim>\<open>u1\<close> has signed in, a snapshot of the users \<^verbatim>\<open>u1\<close> and
  \<^verbatim>\<open>u2\<close> is shown whole, the signed-in user's own entry included.
\<close>

theorem all_users_lists_self:
  "au_currentUser (onAuthStateChanged (Some alice) AllUsers_initial) = Some alice
   \<and> map app_uid (au_users (users_onSnapshot users_snapshot
        (onAuthStateChanged (Some alice) AllUsers_initial))) = [''u1'', ''u2'']
   \<and> uid alice \<in> set (map app_uid (au_users (users_onSnapshot users_snapshot
        (onAuthStateChanged (Some alice) AllUsers_initial))))"
  by (simp add: onAuthStateChanged_def fetchUsers_def users_onSnapshot_def AllUsers_initial_def
      users_snapshot_def alice_def AppUser_of_def)

text \<open>
  In \<^verbatim>\<open>src/unnamed/part_002\<close>, where \<^verbatim>\<open>fetchUsers(user)\<close> gets the signed-in user as an
  argument, no snapshot ever shows that user's own entry.
\<close>

theorem part_002_never_lists_self:
  "uid u \<notin> set (map app_uid (au_users (users_onSnapshot docs
      (onAuthStateChanged_part_002 (Some u) st))))"
  by (auto simp add: onAuthStateChanged_part_002_def fetchUsers_part_002_def users_onSnapshot_def
      usersList_forEach_eq AppUser_of_def)

section \<open>Properties of the snapshot and error callbacks\<close>

lemma chatList_forEach_eq:
  "chatList_forEach docs acc =
     acc @ List.map_filter (\<lambda>d. map_option (Chat_of d) (cd_lastMessageTimestamp d)) docs"
  by (induction docs arbitrary: acc) (auto simp: List.map_filter_simps split: option.splits)

lemma msgs_forEach_eq: "msgs_forEach f u docs acc = acc @ map (Message_of f u) docs"
  by (induction docs arbitrary: acc) auto

lemma ChatList_onSnapshot_chats:
  "cl_chats (fst (ChatList_onSnapshot docs (st, sto))) = chatList_forEach docs []"
  by (simp add: ChatList_onSnapshot_def Let_def)

lemma ChatList_onSnapshot_cache:
  "items (snd (ChatList_onSnapshot docs (st, sto))) STORAGE_KEY =
     (if failing sto then items sto STORAGE_KEY
      else Some (JSON_stringify (cl_chats (fst (ChatList_onSnapshot docs (st, sto))))))"
  by (simp add: ChatList_onSnapshot_def AsyncStorage_setItem_def Let_def)

lemma chat_id_map_filter_ids:
  "map chat_id (List.map_filter (\<lambda>d. map_option (Chat_of d) (cd_lastMessageTimestamp d)) docs) =
   map cd_id (filter (\<lambda>d. cd_lastMessageTimestamp d \<noteq> None) docs)"
  by (induction docs) (auto simp: List.map_filter_simps Chat_of_def split: option.splits)

lemma chat_id_map_filter:
  "set (map chat_id (List.map_filter (\<lambda>d. map_option (Chat_of d) (cd_lastMessageTimestamp d)) docs))
     \<subseteq> set (map cd_id docs)"
  by (auto simp: chat_id_map_filter_ids)

lemma chat_id_map_filter_distinct:
  assumes "distinct (map cd_id docs)" and "d \<in> set docs" and "cd_lastMessageTimestamp d = None"
  shows "cd_id d \<notin> set (map chat_id
           (List.map_filter (\<lambda>d. map_option (Chat_of d) (cd_lastMessageTimestamp d)) docs))"
proof
  assume "cd_id d \<in> set (map chat_id
            (List.map_filter (\<lambda>d. map_option (Chat_of d) (cd_lastMessageTimestamp d)) docs))"
  then obtain d' where d': "d' \<in> set docs" "cd_lastMessageTimestamp d' \<noteq> None" "cd_id d' = cd_id d"
    by (auto simp: chat_id_map_filter_ids)
  from assms(1) have "inj_on cd_id (set docs)"
    by (simp add: distinct_map)
  with d' assms(2) have "d' = d"
    by (auto dest: inj_onD)
  with d' assms(3) show False
    by simp
qed

text \<open>
  Claim C2.  After the snapshots \<open>S1\<close> and then \<open>S2\<close> of the chat list subscription, the
  exposed list \<open>cl_chats\<close> is what the loop builds from \<open>S2\<close>: it is the same whatever
  the first snapshot and the earlier state (and cache) were, and every entry has the id
  of a document of \<open>S2\<close>.  The same holds for \<open>cs_messages\<close> after the snapshots \<open>M1\<close> and
  \<open>M2\<close> of the message subscription: the list has exactly one entry per document of
  \<open>M2\<close>, in the order of \<open>M2\<close>.
\<close>

theorem snapshot_replaces_list:
  "cl_chats (fst (ChatList_onSnapshot S2 (ChatList_onSnapshot S1 (st, sto)))) = chatList_forEach S2 []
   \<and> cl_chats (fst (ChatList_onSnapshot S2 (ChatList_onSnapshot S1 (st, sto)))) =
       cl_chats (fst (ChatList_onSnapshot S2 (st', sto')))
   \<and> set (map chat_id (cl_chats (fst (ChatList_onSnapshot S2 (ChatList_onSnapshot S1 (st, sto))))))
        \<subseteq> set (map cd_id S2)
   \<and> cs_messages (ChatScreen_onSnapshot f u M2 (ChatScreen_onSnapshot f u M1 cst)) =
       map (Message_of f u) M2
   \<and> cs_messages (ChatScreen_onSnapshot f u M2 (ChatScreen_onSnapshot f u M1 cst)) =
       cs_messages (ChatScreen_onSnapshot f u M2 cst')
   \<and> map message_id (cs_messages (ChatScreen_onSnapshot f u M2 (ChatScreen_onSnapshot f u M1 cst))) =
       map md_id M2"
proof -
  obtain st1 sto1 where s1: "ChatList_onSnapshot S1 (st, sto) = (st1, sto1)"
    by (cases "ChatList_onSnapshot S1 (st, sto)")
  have a: "cl_chats (fst (ChatList_onSnapshot S2 (ChatList_onSnapshot S1 (st, sto)))) =
             chatList_forEach S2 []"
    unfolding s1 by (rule ChatList_onSnapshot_chats)
  have b: "set (map chat_id (chatList_forEach S2 [])) \<subseteq> set (map cd_id S2)"
    using chat_id_map_filter [of S2] by (simp add: chatList_forEach_eq)
  have c: "cs_messages (ChatScreen_onSnapshot f u M2 x) = map (Message_of f u) M2" for x
    by (simp add: ChatScreen_onSnapshot_def msgs_forEach_eq)
  have d: "map message_id (map (Message_of f u) M2) = map md_id M2"
    by (simp add: Message_of_def)
  show ?thesis
    using a b c d by (simp add: ChatList_onSnapshot_chats)
qed

text \<open>
  Claim C8.  The error callback of either subscription leaves the exposed list as it
  was: \<open>cl_chats\<close> for the chat list, \<open>cs_messages\<close> for the chat screen.  After a
  snapshot and then an error, the list is still the one built from that snapshot.
\<close>

theorem subscription_error_keeps_lists:
  "cl_chats (ChatList_onError e st) = cl_chats st
   \<and> cs_messages (ChatScreen_onError e cst) = cs_messages cst
   \<and> cl_chats (ChatList_onError e (fst (ChatList_onSnapshot S (st, sto)))) = chatList_forEach S []
   \<and> cs_messages (ChatScreen_onError e (ChatScreen_onSnapshot f u M cst)) = map (Message_of f u) M"
  by (simp add: ChatList_onError_def ChatScreen_onError_def ChatList_onSnapshot_chats
      ChatScreen_onSnapshot_def msgs_forEach_eq)

text \<open>
  Claim C9.  In a snapshot of the chat list (whose documents have distinct ids), a
  document without \<^verbatim>\<open>lastMessageTimestamp\<close> has no entry in the exposed list: the list
  holds exactly the documents that have the field, in the snapshot's order.  The cache
  entry is the serialisation of that same list, unless the write to AsyncStorage fails,
  which leaves the cache as it was.
\<close>

theorem missing_timestamp_excluded:
  assumes "d \<in> set docs" and "cd_lastMessageTimestamp d = None" and "distinct (map cd_id docs)"
  shows "cd_id d \<notin> set (map chat_id (cl_chats (fst (ChatList_onSnapshot docs (st, sto)))))
       \<and> cl_chats (fst (ChatList_onSnapshot docs (st, sto))) =
           List.map_filter (\<lambda>d. map_option (Chat_of d) (cd_lastMessageTimestamp d)) docs
       \<and> items (snd (ChatList_onSnapshot docs (st, sto))) STORAGE_KEY =
           (if failing sto then items sto STORAGE_KEY
            else Some (JSON_stringify (cl_chats (fst (ChatList_onSnapshot docs (st, sto))))))"
  using chat_id_map_filter_distinct [OF assms(3) assms(1) assms(2)]
  by (simp add: ChatList_onSnapshot_chats chatList_forEach_eq ChatList_onSnapshot_cache)

theorem missing_timestamp_excluded_witness:
  "chat_pending \<in> set docs_one_pending
   \<and> cd_lastMessageTimestamp chat_pending = None
   \<and> distinct (map cd_id docs_one_pending)
   \<and> ''c2'' \<notin> set (map chat_id (cl_chats (fst (ChatList_onSnapshot docs_one_pending (cl_initial, storage_empty)))))
   \<and> map chat_id (cl_chats (fst (ChatList_onSnapshot docs_one_pending (cl_initial, storage_empty)))) = [''c1'']
   \<and> items (snd (ChatList_onSnapshot docs_one_pending (cl_initial, storage_empty))) STORAGE_KEY =
        Some (JSON_stringify (cl_chats (fst (ChatList_onSnapshot docs_one_pending (cl_initial, storage_empty)))))"
  using missing_timestamp_excluded [of chat_pending docs_one_pending cl_initial storage_empty]
  by (simp add: docs_one_pending_def chat_pending_def chat_u1_u2_def storage_empty_def
      List.map_filter_simps Chat_of_def)

text \<open>
  The second \<^verbatim>\<open>ChatList\<close> of \<^verbatim>\<open>src/chatlist.tsx\<close> shows every document of a snapshot,
  those without \<^verbatim>\<open>lastMessageTimestamp\<close> too.
\<close>

lemma chatList_forEach_second_ids:
  "map chat_id (chatList_forEach_second docs acc) = map chat_id acc @ map cd_id docs"
  by (induction docs arbitrary: acc) auto

theorem second_ChatList_skips_nothing:
  "map chat_id (cl_chats (ChatList_onSnapshot_second docs st)) = map cd_id docs"
  by (simp add: ChatList_onSnapshot_second_def chatList_forEach_second_ids)

section \<open>Properties of the chat screen\<close>

text \<open>
  Claim C3 fails.  Whatever chat id the route carries, the subscription of the chat
  screen reads the collection of the chat \<^verbatim>\<open>general_chat\<close>, in ascending order of
  \<^verbatim>\<open>timestamp\<close>.  For the chat \<^verbatim>\<open>c1\<close> that is not the collection of its messages.  When
  \<^verbatim>\<open>u1\<close> creates the chat with \<^verbatim>\<open>u2\<close> on the empty store (\<^verbatim>\<open>part_002\<close>), the new chat \<^verbatim>\<open>a\<close> gets the message \<^verbatim>\<open>Chat started\<close> in its
  own collection, and the collection that the screen opened for \<^verbatim>\<open>a\<close> subscribes to is
  empty.
\<close>

theorem ChatScreen_reads_general_chat:
  "sub_collection (ChatScreen_subscription appId c) = messagesPath appId ''general_chat''
   \<and> sub_orderBy (ChatScreen_subscription appId c) = (''timestamp'', Asc)
   \<and> sub_collection (ChatScreen_subscription ''app'' ''c1'') \<noteq> messagesPath ''app'' ''c1''
   \<and> fst (handleCreateChat_part_002 ''app'' (Some alice) bob fs_empty) = Completed ''a''
   \<and> map md_text (message_docs (snd (handleCreateChat_part_002 ''app'' (Some alice) bob fs_empty))
        (messagesPath ''app'' ''a'')) = [Some ''Chat started'']
   \<and> message_docs (snd (handleCreateChat_part_002 ''app'' (Some alice) bob fs_empty))
        (sub_collection (ChatScreen_subscription ''app'' ''a'')) = []"
  by (simp add: ChatScreen_subscription_def messagesPath_def handleCreateChat_part_002_def
      getDocs_members_contains_def create_part_002_def addDoc_chat_def addDoc_message_def
      fs_empty_def alice_def bob_def autoId_def Let_def)

lemma dropWhile_all_iff: "(\<forall>x\<in>set (dropWhile P s). P x) \<longleftrightarrow> (\<forall>x\<in>set s. P x)"
proof
  assume a: "\<forall>x\<in>set (dropWhile P s). P x"
  have "dropWhile P s = []"
  proof (rule ccontr)
    assume ne: "dropWhile P s \<noteq> []"
    then have "\<not> P (hd (dropWhile P s))"
      by (rule hd_dropWhile)
    moreover have "hd (dropWhile P s) \<in> set (dropWhile P s)"
      using ne by simp
    ultimately show False
      using a by blast
  qed
  then show "\<forall>x\<in>set s. P x"
    by (simp add: dropWhile_eq_Nil_conv)
next
  assume "\<forall>x\<in>set s. P x"
  then show "\<forall>x\<in>set (dropWhile P s). P x"
    by (meson set_dropWhileD)
qed

lemma trim_empty_iff: "trim s = [] \<longleftrightarrow> list_all is_space s"
  by (simp add: trim_def dropWhile_eq_Nil_conv dropWhile_all_iff list_all_iff)

text \<open>
  Claim C6, as amended.  When the input is empty or consists of white space only,
  \<^verbatim>\<open>sendMessage\<close> returns at its guard: no error is signalled or logged, no message
  document is written (the store is unchanged), no snapshot is raised, and the
  screen's state, the input and the message list included, is unchanged.
\<close>

theorem sendMessage_blank_ignored:
  assumes "list_all is_space (cs_input st)"
  shows "sendMessage f appId listening st fs = (Returned, st, fs)"
  using assms by (simp add: sendMessage_def trim_empty_iff)

text \<open>An input of a space, a tab and a no-break space.\<close>

theorem sendMessage_blank_ignored_witness:
  "list_all is_space (cs_input (cs_typed [CHR 0x20, CHR 0x09, CHR 0xA0]))
   \<and> sendMessage (\<lambda>t. []) ''app'' True (cs_typed [CHR 0x20, CHR 0x09, CHR 0xA0]) fs_empty =
       (Returned, cs_typed [CHR 0x20, CHR 0x09, CHR 0xA0], fs_empty)"
  using sendMessage_blank_ignored
    [of "cs_typed [CHR 0x20, CHR 0x09, CHR 0xA0]" "\<lambda>t. []" "''app''" True fs_empty]
  by (simp add: cs_typed_def is_space_def)

text \<open>
  Claim C6 as stated fails: for the input of three spaces the outcome is the silent
  early return, not the error \<open>InvalidMessage\<close>.
\<close>

theorem sendMessage_blank_counterexample:
  "fst (sendMessage (\<lambda>t. []) ''app'' True (cs_typed ''   '') fs_empty) = Returned
   \<and> fst (sendMessage (\<lambda>t. []) ''app'' True (cs_typed ''   '') fs_empty) \<noteq> Caught InvalidMessage"
  by (simp add: sendMessage_def trim_def is_space_def cs_typed_def)

subsection \<open>The entry of an outgoing message\<close>












end
